theory Spec2Isabelle
  imports Complex_Main
begin

section \<open>NUSA Compute provider client: a shallow embedding of provider\_client.py\<close>

text \<open>
  The client detects a GPU, resolves a persistent node identifier, connects to the
  registry and then sends a heartbeat every minute until it is interrupted.  Every
  function of the script is embedded as a function on an explicit \<open>world\<close>: the
  answers of the environment (GPU probe, registry, clock, random numbers, file system,
  stop signal) are read from oracles indexed by call counters, and every effect of the
  script (registry request, sleep, file write, log line) is appended to a trace.
\<close>

subsection \<open>Python strings and floats\<close>

text \<open>
  A Python \<open>str\<close> is a list of Unicode code points.  \<open>lit\<close> turns an ASCII
  literal of the script into such a list.
\<close>

type_synonym pystr = "nat list"

definition lit :: "string \<Rightarrow> pystr" where
  "lit s = map of_char s"

text \<open>\<open>str.isspace\<close> for one code point: the characters that \<open>str.strip()\<close> removes.\<close>

definition py_isspace :: "nat \<Rightarrow> bool" where
  "py_isspace c \<longleftrightarrow>
     (9 \<le> c \<and> c \<le> 13) \<or> (28 \<le> c \<and> c \<le> 32) \<or> c = 133 \<or> c = 160 \<or> c = 5760 \<or>
     (8192 \<le> c \<and> c \<le> 8202) \<or> c = 8232 \<or> c = 8233 \<or> c = 8239 \<or> c = 8287 \<or> c = 12288"

definition strip :: "pystr \<Rightarrow> pystr" where
  "strip s = rev (dropWhile py_isspace (rev (dropWhile py_isspace s)))"

text \<open>The slice \<open>s[i:j]\<close> for \<open>0 \<le> i \<le> j\<close>, and \<open>sep.join(parts)\<close>.\<close>

definition slice :: "nat \<Rightarrow> nat \<Rightarrow> 'a list \<Rightarrow> 'a list" where
  "slice i j s = take (j - i) (drop i s)"

fun join :: "pystr \<Rightarrow> pystr list \<Rightarrow> pystr" where
  "join sep [] = []"
| "join sep [p] = p"
| "join sep (p # q # ps) = p @ sep @ join sep (q # ps)"

text \<open>The format \<open>'%0kx' % n\<close>: lower-case hexadecimal, zero-padded to at least \<open>k\<close> digits.\<close>

definition hexdigit :: "nat \<Rightarrow> nat" where
  "hexdigit d = (if d < 10 then 48 + d else 87 + d)"

fun hex_digits :: "nat \<Rightarrow> pystr" where
  "hex_digits n = (if n < 16 then [hexdigit n] else hex_digits (n div 16) @ [hexdigit (n mod 16)])"

declare hex_digits.simps [simp del]

definition format_0x :: "nat \<Rightarrow> nat \<Rightarrow> pystr" where
  "format_0x k n = (let h = hex_digits n in replicate (k - length h) 48 @ h)"

text \<open>
  \<open>str(uuid.UUID(int=n))\<close>, as the standard library prints it: the 32 hexadecimal
  digits of the integer in groups of 8, 4, 4, 4 and 12.
\<close>

definition str_uuid :: "nat \<Rightarrow> pystr" where
  "str_uuid n =
     (let h = format_0x 32 n
      in slice 0 8 h @ [45] @ slice 8 12 h @ [45] @ slice 12 16 h @ [45] @ slice 16 20 h
           @ [45] @ drop 20 h)"

text \<open>
  A Python \<open>float\<close> is the rational it denotes, or one of the three special values.
  Arithmetic on finite values is exact here: the rounding of the binary
  representation is not modelled.
\<close>

datatype pyfloat = Finite rat | PosInf | NegInf | NaN

text \<open>\<open>x * 100\<close>.\<close>

fun times100 :: "pyfloat \<Rightarrow> pyfloat" where
  "times100 (Finite r) = Finite (r * 100)"
| "times100 x = x"

text \<open>\<open>int(x)\<close> truncates towards zero and raises on \<open>nan\<close> and the infinities.\<close>

fun py_int :: "pyfloat \<Rightarrow> int option" where
  "py_int (Finite r) = Some (if 0 \<le> r then \<lfloor>r\<rfloor> else \<lceil>r\<rceil>)"
| "py_int x = None"

text \<open>
  \<open>round(x, 2)\<close>: the nearest multiple of 1/100, ties to the even one; a value
  that is not finite is returned as it is.
\<close>

definition round_half_even :: "rat \<Rightarrow> int" where
  "round_half_even y =
     (let f = \<lfloor>y\<rfloor>; d = y - of_int f
      in if d < 1 / 2 then f else if 1 / 2 < d then f + 1 else if even f then f else f + 1)"

fun py_round2 :: "pyfloat \<Rightarrow> pyfloat" where
  "py_round2 (Finite r) = Finite (of_int (round_half_even (r * 100)) / 100)"
| "py_round2 x = x"

subsection \<open>The world: oracles, state and trace\<close>

datatype exc = KeyboardInterrupt | IndexError

text \<open>What a call into the registry client does: it returns, raises an \<open>Exception\<close>,
  or is cut short by the stop signal.\<close>

datatype outcome = Returned | Raised | Interrupted

datatype level = INFO | WARNING | ERROR

datatype jvalue =
    JStr pystr
  | JInt int
  | JFloat pyfloat
  | JUtcIso nat  \<comment> \<open>\<open>datetime.now(timezone.utc).isoformat()\<close> at the given clock reading\<close>

type_synonym payload = "(string \<times> jvalue) list"

datatype event =
    Log level string  \<comment> \<open>level and format string of the message\<close>
  | FileWrite pystr  \<comment> \<open>\<open>id_file.write_text\<close> called with this text\<close>
  | Upsert string payload string  \<comment> \<open>table, record, \<open>on_conflict\<close> column\<close>
  | Update string payload string pystr  \<comment> \<open>table, fields, filter column and value\<close>
  | Sleep nat

text \<open>A GPU as \<open>GPUtil.getGPUs()\<close> reports it, and one probe's answer.\<close>

datatype GPU = GPU (gpu_name: pystr) (gpu_memoryTotal: pyfloat) (gpu_driver: pystr) (gpu_load: pyfloat)

datatype probe = ProbeRaises | ProbeGPUs "GPU list"

record world =
  getGPUs :: "nat \<Rightarrow> probe"  \<comment> \<open>answer of the n-th \<open>GPUtil.getGPUs()\<close>\<close>
  upsert_outcome :: "nat \<Rightarrow> outcome"  \<comment> \<open>outcome of the n-th upsert\<close>
  update_outcome :: "nat \<Rightarrow> outcome"  \<comment> \<open>outcome of the n-th update\<close>
  sleep_interrupted :: "nat \<Rightarrow> bool"  \<comment> \<open>the stop signal arrives during the n-th sleep\<close>
  utc_now :: "nat \<Rightarrow> nat"  \<comment> \<open>the n-th reading of the UTC clock\<close>
  uuid4 :: "nat \<Rightarrow> nat"  \<comment> \<open>the n-th random UUID, as its integer\<close>
  uuid5 :: "nat \<Rightarrow> pystr \<Rightarrow> nat"  \<comment> \<open>name-based UUID of a namespace and a name\<close>
  getnode :: nat  \<comment> \<open>\<open>uuid.getnode()\<close>, the hardware address\<close>
  env_url :: "pystr option"  \<comment> \<open>\<open>SUPABASE_URL\<close> after \<open>load_dotenv()\<close>\<close>
  env_key :: "pystr option"
  create_client_raises :: bool
  read_raises :: bool  \<comment> \<open>\<open>id_file.read_text()\<close> raises\<close>
  write_raises :: bool  \<comment> \<open>\<open>id_file.write_text()\<close> raises\<close>
  id_file :: "pystr option"  \<comment> \<open>text of \<open>.nusa_id\<close>, \<open>None\<close> when the file does not exist\<close>
  n_probe :: nat
  n_upsert :: nat
  n_update :: nat
  n_sleep :: nat
  n_clock :: nat
  n_uuid4 :: nat
  trace :: "event list"

definition emit :: "event \<Rightarrow> world \<Rightarrow> world" where
  "emit e w = w\<lparr>trace := trace w @ [e]\<rparr>"

definition logger_info :: "string \<Rightarrow> world \<Rightarrow> world" where
  "logger_info m w = emit (Log INFO m) w"

definition logger_warning :: "string \<Rightarrow> world \<Rightarrow> world" where
  "logger_warning m w = emit (Log WARNING m) w"

definition logger_error :: "string \<Rightarrow> world \<Rightarrow> world" where
  "logger_error m w = emit (Log ERROR m) w"

subsection \<open>Configuration\<close>

definition HEARTBEAT_INTERVAL :: nat where "HEARTBEAT_INTERVAL = 60"
definition MAX_RETRIES :: nat where "MAX_RETRIES = 3"
definition RETRY_DELAYS :: "nat list" where "RETRY_DELAYS = [1, 2, 4]"
definition TABLE_NAME :: string where "TABLE_NAME = ''nodes''"

subsection \<open>Unique machine identification\<close>

definition get_mac_address :: "world \<Rightarrow> pystr" where
  "get_mac_address w =
     (let h = format_0x 12 (getnode w)
      in join [58] (map (\<lambda>i. slice i (i + 2) h) [0, 2, 4, 6, 8, 10]))"

text \<open>The generation branch of \<open>get_or_create_node_id\<close>: lines 94 to 106.\<close>

definition generate_node_id :: "world \<Rightarrow> pystr \<times> world" where
  "generate_node_id w =
     (let mac = get_mac_address w;
          namespace = getnode w;
          node_id = str_uuid (uuid5 w namespace (mac @ [45] @ str_uuid (uuid4 w (n_uuid4 w))));
          w1 = w\<lparr>n_uuid4 := n_uuid4 w + 1\<rparr>;
          w2 = emit (FileWrite node_id) w1
      in if write_raises w2
         then (node_id, logger_warning ''Could not persist node ID: {e}'' w2)
         else (node_id, logger_info ''Generated new node ID: {node_id[:8]}...'' (w2\<lparr>id_file := Some node_id\<rparr>)))"

definition get_or_create_node_id :: "world \<Rightarrow> pystr \<times> world" where
  "get_or_create_node_id w =
     (case id_file w of
        None \<Rightarrow> generate_node_id w
      | Some text \<Rightarrow>
          if read_raises w then generate_node_id (logger_warning ''Could not read {NODE_ID_FILE}: {e}'' w)
          else let node_id = strip text
               in if node_id \<noteq> [] then (node_id, logger_info ''Loaded existing node ID: {node_id[:8]}...'' w)
                  else generate_node_id w)"

subsection \<open>GPU detection\<close>

record GPUInfo =
  name :: pystr
  vram_total :: int
  driver_version :: pystr
  load :: pyfloat

definition detect_gpu :: "world \<Rightarrow> GPUInfo option \<times> world" where
  "detect_gpu w =
     (let w1 = w\<lparr>n_probe := n_probe w + 1\<rparr>
      in case getGPUs w (n_probe w) of
           ProbeRaises \<Rightarrow> (None, logger_error ''GPU detection failed: {e}'' w1)
         | ProbeGPUs gpus \<Rightarrow>
             (case gpus of
                [] \<Rightarrow> (None, w1)
              | gpu # _ \<Rightarrow>
                  (case py_int (gpu_memoryTotal gpu) of
                     None \<Rightarrow> (None, logger_error ''GPU detection failed: {e}'' w1)
                   | Some v \<Rightarrow>
                       (Some \<lparr>name = gpu_name gpu, vram_total = v,
                              driver_version = gpu_driver gpu,
                              load = times100 (gpu_load gpu)\<rparr>, w1))))"

definition get_current_gpu_load :: "world \<Rightarrow> pyfloat \<times> world" where
  "get_current_gpu_load w =
     (let w1 = w\<lparr>n_probe := n_probe w + 1\<rparr>
      in case getGPUs w (n_probe w) of
           ProbeRaises \<Rightarrow> (Finite 0, w1)
         | ProbeGPUs gpus \<Rightarrow>
             (case gpus of
                [] \<Rightarrow> (Finite 0, w1)
              | gpu # _ \<Rightarrow> (times100 (gpu_load gpu), w1)))"

subsection \<open>Supabase client\<close>

datatype client = Client pystr pystr

definition init_supabase :: "world \<Rightarrow> client option \<times> world" where
  "init_supabase w =
     (let missing =
            (None, logger_error ''Please create a .env file based on .env.template''
                     (logger_error ''Missing SUPABASE_URL or SUPABASE_KEY in environment variables.'' w))
      in case env_url w of
           None \<Rightarrow> missing
         | Some url \<Rightarrow>
             (case env_key w of
                None \<Rightarrow> missing
              | Some key \<Rightarrow>
                  if url = [] \<or> key = [] then missing
                  else if url = lit ''your_supabase_url_here'' \<or> key = lit ''your_supabase_anon_key_here''
                  then (None, logger_error ''Please update .env with your actual Supabase credentials.'' w)
                  else if create_client_raises w
                  then (None, logger_error ''Failed to initialize Supabase client: {e}'' w)
                  else (Some (Client url key),
                        logger_info ''Supabase client initialized successfully.'' w)))"

text \<open>The two calls into the client and \<open>time.sleep\<close>.\<close>

definition table_upsert :: "client \<Rightarrow> payload \<Rightarrow> string \<Rightarrow> world \<Rightarrow> outcome \<times> world" where
  "table_upsert c data on_conflict w =
     (upsert_outcome w (n_upsert w),
      emit (Upsert TABLE_NAME data on_conflict) (w\<lparr>n_upsert := n_upsert w + 1\<rparr>))"

definition table_update :: "client \<Rightarrow> payload \<Rightarrow> string \<Rightarrow> pystr \<Rightarrow> world \<Rightarrow> outcome \<times> world" where
  "table_update c changes col v w =
     (update_outcome w (n_update w),
      emit (Update TABLE_NAME changes col v) (w\<lparr>n_update := n_update w + 1\<rparr>))"

definition time_sleep :: "nat \<Rightarrow> world \<Rightarrow> (exc + unit) \<times> world" where
  "time_sleep d w =
     (if sleep_interrupted w (n_sleep w) then Inl KeyboardInterrupt else Inr (),
      emit (Sleep d) (w\<lparr>n_sleep := n_sleep w + 1\<rparr>))"

subsection \<open>Heartbeat logic\<close>

text \<open>The retry loop of \<open>send_heartbeat\<close>, from iteration \<open>attempt\<close> on.\<close>

function heartbeat_attempts :: "nat \<Rightarrow> client \<Rightarrow> payload \<Rightarrow> world \<Rightarrow> (exc + bool) \<times> world" where
  "heartbeat_attempts attempt c data w =
     (if attempt < MAX_RETRIES then
        (case table_upsert c data ''node_id'' w of
           (Returned, w1) \<Rightarrow> (Inr True, w1)
         | (Interrupted, w1) \<Rightarrow> (Inl KeyboardInterrupt, w1)
         | (Raised, w1) \<Rightarrow>
             if attempt < MAX_RETRIES - 1 then
               (if attempt < length RETRY_DELAYS then
                  (let delay = RETRY_DELAYS ! attempt;
                       w2 = logger_warning ''Heartbeat failed (attempt {attempt + 1}/{MAX_RETRIES}): {e}'' w1;
                       w3 = logger_warning ''Retrying in {delay}s...'' w2
                   in case time_sleep delay w3 of
                        (Inl e, w4) \<Rightarrow> (Inl e, w4)
                      | (Inr u, w4) \<Rightarrow> heartbeat_attempts (attempt + 1) c data w4)
                else (Inl IndexError, w1))
             else (Inr False, logger_error ''Heartbeat failed after {MAX_RETRIES} attempts: {e}'' w1))
      else (Inr False, w))"
  by pat_completeness auto
termination
  by (relation "measure (\<lambda>(attempt, c, data, w). MAX_RETRIES - attempt)") auto

declare heartbeat_attempts.simps [simp del]

definition send_heartbeat :: "client \<Rightarrow> pystr \<Rightarrow> GPUInfo \<Rightarrow> pystr \<Rightarrow> world \<Rightarrow> (exc + bool) \<times> world" where
  "send_heartbeat c node_id gpu_info status w =
     (case get_current_gpu_load w of
        (current_load, w1) \<Rightarrow>
          (let data = [(''node_id'', JStr node_id),
                       (''gpu_name'', JStr (name gpu_info)),
                       (''vram_total'', JInt (vram_total gpu_info)),
                       (''current_load'', JFloat (py_round2 current_load)),
                       (''status'', JStr status),
                       (''last_seen'', JUtcIso (utc_now w1 (n_clock w1)))];
               w2 = w1\<lparr>n_clock := n_clock w1 + 1\<rparr>
           in heartbeat_attempts 0 c data w2))"

definition update_status_offline :: "client \<Rightarrow> pystr \<Rightarrow> world \<Rightarrow> (exc + unit) \<times> world" where
  "update_status_offline c node_id w =
     (let changes = [(''status'', JStr (lit ''offline'')),
                    (''last_seen'', JUtcIso (utc_now w (n_clock w)))];
          w1 = w\<lparr>n_clock := n_clock w + 1\<rparr>
      in case table_update c changes ''node_id'' node_id w1 of
           (Returned, w2) \<Rightarrow> (Inr (), logger_info ''Status updated to 'offline' in database.'' w2)
         | (Raised, w2) \<Rightarrow> (Inr (), logger_error ''Failed to update offline status: {e}'' w2)
         | (Interrupted, w2) \<Rightarrow> (Inl KeyboardInterrupt, w2))"

text \<open>The ten lines logged before the loop starts.\<close>

definition banner :: "world \<Rightarrow> world" where
  "banner w =
     logger_info (''Press Ctrl+C to stop the client.'' @ [CHR 0x0A])
       (logger_info (replicate 50 CHR ''='')
         (logger_info ''Heartbeat Interval: {HEARTBEAT_INTERVAL}s''
           (logger_info ''Driver: {gpu_info.driver_version}''
             (logger_info ''VRAM: {gpu_info.vram_total} MB''
               (logger_info ''GPU: {gpu_info.name}''
                 (logger_info ''Node ID: {node_id[:8]}...''
                   (logger_info (replicate 50 CHR ''='')
                     (logger_info ''NUSA Compute Provider Client Started''
                       (logger_info (replicate 50 CHR ''='') w)))))))))"

text \<open>One iteration of the \<open>while True\<close> loop: heartbeat, log line, sleep.\<close>

definition tick :: "client \<Rightarrow> pystr \<Rightarrow> GPUInfo \<Rightarrow> world \<Rightarrow> (exc + unit) \<times> world" where
  "tick c node_id gpu_info w =
     (case send_heartbeat c node_id gpu_info (lit ''online'') w of
        (Inl e, w1) \<Rightarrow> (Inl e, w1)
      | (Inr success, w1) \<Rightarrow>
          time_sleep HEARTBEAT_INTERVAL
            (if success then logger_info ''Heartbeat sent at {current_time} - Status: Online'' w1
             else logger_warning ''Heartbeat failed - will retry next interval'' w1))"

text \<open>
  The loop never ends by itself.  \<open>while_true n\<close> runs at most \<open>n\<close> iterations: it is
  still \<open>Running\<close> after them, or an exception left the loop body.
\<close>

datatype loop_result = Running world | Raising exc world

fun while_true :: "nat \<Rightarrow> client \<Rightarrow> pystr \<Rightarrow> GPUInfo \<Rightarrow> world \<Rightarrow> loop_result" where
  "while_true 0 c node_id gpu_info w = Running w"
| "while_true (Suc n) c node_id gpu_info w =
     (case tick c node_id gpu_info w of
        (Inl e, w1) \<Rightarrow> Raising e w1
      | (Inr u, w1) \<Rightarrow> while_true n c node_id gpu_info w1)"

text \<open>How the process ends: \<open>sys.exit\<close> with a status, or an exception nobody catches.\<close>

datatype ending = Exit nat | Uncaught exc

definition run_heartbeat_loop ::
    "nat \<Rightarrow> client \<Rightarrow> pystr \<Rightarrow> GPUInfo \<Rightarrow> world \<Rightarrow> (ending \<times> world) option" where
  "run_heartbeat_loop fuel c node_id gpu_info w =
     (case while_true fuel c node_id gpu_info (banner w) of
        Running w1 \<Rightarrow> None
      | Raising KeyboardInterrupt w1 \<Rightarrow>
          (case update_status_offline c node_id
                  (logger_info ''Shutdown requested (Ctrl+C)...'' (logger_info [CHR 0x0A] w1)) of
             (Inl e, w2) \<Rightarrow> Some (Uncaught e, w2)
           | (Inr u, w2) \<Rightarrow> Some (Exit 0, logger_info ''NUSA Compute Provider Client stopped.'' w2))
      | Raising e w1 \<Rightarrow> Some (Uncaught e, w1))"

subsection \<open>Main entry point\<close>

definition no_gpu_diagnostic :: "world \<Rightarrow> world" where
  "no_gpu_diagnostic w =
     logger_error ''  3. nvidia-smi command works correctly''
       (logger_error ''  2. NVIDIA drivers are properly installed''
         (logger_error ''  1. An NVIDIA GPU is installed''
           (logger_error ''Please ensure:''
             (logger_error ''NUSA Compute requires an NVIDIA GPU with proper drivers.''
               (logger_error ''No NVIDIA GPU detected on this machine.'' w)))))"

definition main :: "nat \<Rightarrow> world \<Rightarrow> (ending \<times> world) option" where
  "main fuel w =
     (case detect_gpu (logger_info ''Detecting GPU...''
                         (logger_info ''Initializing NUSA Compute Provider Client...'' w)) of
        (None, w1) \<Rightarrow> Some (Exit 1, no_gpu_diagnostic w1)
      | (Some gpu_info, w1) \<Rightarrow>
          (case get_or_create_node_id
                  (logger_info ''Setting up node identity...''
                     (logger_info ''GPU detected: {gpu_info}'' w1)) of
             (node_id, w2) \<Rightarrow>
               (case init_supabase (logger_info ''Connecting to Supabase...'' w2) of
                  (None, w3) \<Rightarrow>
                    Some (Exit 1, logger_error ''Failed to initialize Supabase client. Exiting.'' w3)
                | (Some c, w3) \<Rightarrow> run_heartbeat_loop fuel c node_id gpu_info w3)))"

subsection \<open>The registry's side of an update\<close>

type_synonym row = "string \<rightharpoonup> jvalue"

text \<open>
  Modelled from the spec: the registry is a remote service, not part of the script.  Its
  update call, as sections 4.3 and 6 of the design describe it: the table has one row per
  node; an update request sets the given fields in every row whose filter column holds
  the filter value and touches nothing else; with no such row the table stays as it is.
\<close>

definition registry_update :: "payload \<Rightarrow> string \<Rightarrow> pystr \<Rightarrow> row list \<Rightarrow> row list" where
  "registry_update changes col v table =
     map (\<lambda>r. if r col = Some (JStr v) then r ++ map_of changes else r) table"

subsection \<open>Reading a trace\<close>

fun is_log :: "event \<Rightarrow> bool" where
  "is_log (Log l m) = True"
| "is_log e = False"

fun is_sleep :: "event \<Rightarrow> bool" where
  "is_sleep (Sleep d) = True"
| "is_sleep e = False"

fun is_upsert :: "event \<Rightarrow> bool" where
  "is_upsert (Upsert t d k) = True"
| "is_upsert e = False"

fun is_update :: "event \<Rightarrow> bool" where
  "is_update (Update t f k v) = True"
| "is_update e = False"

fun is_file_write :: "event \<Rightarrow> bool" where
  "is_file_write (FileWrite s) = True"
| "is_file_write e = False"

definition is_registry_call :: "event \<Rightarrow> bool" where
  "is_registry_call e \<longleftrightarrow> is_upsert e \<or> is_update e"

text \<open>A trace without its log lines: registry calls, sleeps and file writes, in order.\<close>

definition actions :: "event list \<Rightarrow> event list" where
  "actions tr = filter (\<lambda>e. \<not> is_log e) tr"

text \<open>The dictionary that \<open>send_heartbeat\<close> builds when it is called in world \<open>w\<close>.\<close>

definition heartbeat_data :: "pystr \<Rightarrow> GPUInfo \<Rightarrow> pystr \<Rightarrow> world \<Rightarrow> payload" where
  "heartbeat_data node_id gpu_info status w =
     [(''node_id'', JStr node_id),
      (''gpu_name'', JStr (name gpu_info)),
      (''vram_total'', JInt (vram_total gpu_info)),
      (''current_load'', JFloat (py_round2 (fst (get_current_gpu_load w)))),
      (''status'', JStr status),
      (''last_seen'', JUtcIso (utc_now w (n_clock w)))]"

text \<open>
  What every online heartbeat of a run has to look like: the six fields in order, keyed
  by the node identifier, with the name and capacity of the GPU found at startup and a
  load that \<open>round(x, 2)\<close> leaves as it is.
\<close>

fun heartbeat_ok :: "pystr \<Rightarrow> GPUInfo \<Rightarrow> event \<Rightarrow> bool" where
  "heartbeat_ok node_id gpu_info (Upsert t d k) =
     (t = TABLE_NAME \<and> k = ''node_id'' \<and>
      (case d of
         [(k1, JStr v1), (k2, JStr v2), (k3, JInt v3), (k4, JFloat v4), (k5, JStr v5), (k6, JUtcIso v6)] \<Rightarrow>
           [k1, k2, k3, k4, k5, k6] =
             [''node_id'', ''gpu_name'', ''vram_total'', ''current_load'', ''status'', ''last_seen''] \<and>
           v1 = node_id \<and> v2 = name gpu_info \<and> v3 = vram_total gpu_info \<and>
           py_round2 v4 = v4 \<and> v5 = lit ''online''
       | _ \<Rightarrow> False))"
| "heartbeat_ok node_id gpu_info e = True"

fun world_of :: "loop_result \<Rightarrow> world" where
  "world_of (Running w) = w"
| "world_of (Raising e w) = w"

text \<open>World \<open>w'\<close> has the trace of \<open>w\<close> and then only events that satisfy \<open>P\<close>.\<close>

definition grows :: "(event \<Rightarrow> bool) \<Rightarrow> world \<Rightarrow> world \<Rightarrow> bool" where
  "grows P w w' \<longleftrightarrow> (\<exists>new. trace w' = trace w @ new \<and> list_all P new)"

text \<open>The request that \<open>update_status_offline\<close> sends when it is called in world \<open>w\<close>.\<close>

definition offline_mark :: "pystr \<Rightarrow> world \<Rightarrow> event" where
  "offline_mark node_id w =
     Update TABLE_NAME
       [(''status'', JStr (lit ''offline'')), (''last_seen'', JUtcIso (utc_now w (n_clock w)))]
       ''node_id'' node_id"

text \<open>The events an iteration of the loop may add: well-formed heartbeats, log lines, sleeps.\<close>

definition tick_event :: "pystr \<Rightarrow> GPUInfo \<Rightarrow> event \<Rightarrow> bool" where
  "tick_event node_id gpu_info e \<longleftrightarrow>
     heartbeat_ok node_id gpu_info e \<and> \<not> is_update e \<and> \<not> is_file_write e"

subsection \<open>A sample world\<close>

text \<open>
  One GPU at a third of its capacity, a registry that is configured, an empty directory,
  and no failure anywhere.
\<close>

definition sample_world :: world where
  "sample_world =
     \<lparr>getGPUs = (\<lambda>n. ProbeGPUs [GPU (lit ''RTX'') (Finite 8192) (lit ''535'') (Finite (1 / 3))]),
      upsert_outcome = (\<lambda>n. Returned),
      update_outcome = (\<lambda>n. Returned),
      sleep_interrupted = (\<lambda>n. False),
      utc_now = (\<lambda>n. 1000 + n),
      uuid4 = (\<lambda>n. 7 + n),
      uuid5 = (\<lambda>ns nm. ns + length nm),
      getnode = 171,
      env_url = Some (lit ''https://registry''),
      env_key = Some (lit ''key''),
      create_client_raises = False,
      read_raises = False,
      write_raises = False,
      id_file = None,
      n_probe = 0, n_upsert = 0, n_update = 0, n_sleep = 0, n_clock = 0, n_uuid4 = 0,
      trace = []\<rparr>"

definition sample_gpu :: GPUInfo where
  "sample_gpu = \<lparr>name = lit ''RTX'', vram_total = 8192, driver_version = lit ''535'',
                  load = Finite (100 / 3)\<rparr>"

section \<open>Properties\<close>

subsection \<open>How the trace grows\<close>

lemmas world_defs = emit_def logger_info_def logger_warning_def logger_error_def
  table_upsert_def table_update_def time_sleep_def

lemma grows_refl: "trace w' = trace w \<Longrightarrow> grows P w w'"
  by (simp add: grows_def)

lemma grows_trans: "grows P w w1 \<Longrightarrow> grows P w1 w2 \<Longrightarrow> grows P w w2"
  by (auto simp: grows_def)

lemma grows_step: "trace w1 = trace w @ es \<Longrightarrow> list_all P es \<Longrightarrow> grows P w1 w2 \<Longrightarrow> grows P w w2"
  by (auto simp: grows_def)

lemma grows_mono: "grows P w w' \<Longrightarrow> (\<And>e. P e \<Longrightarrow> Q e) \<Longrightarrow> grows Q w w'"
  by (auto simp: grows_def list_all_iff)


lemma grows_filter: "grows P w w' \<Longrightarrow> (\<And>e. P e \<Longrightarrow> \<not> Q e) \<Longrightarrow> filter Q (trace w') = filter Q (trace w)"
  by (auto simp: grows_def list_all_iff)

lemma heartbeat_attempts_measure:
  "MAX_RETRIES - a = k \<Longrightarrow>
   grows (\<lambda>e. e = Upsert TABLE_NAME d ''node_id'' \<or> is_log e \<or> is_sleep e) w
     (snd (heartbeat_attempts a c d w))"
proof (induction k arbitrary: a w)
  case 0
  then show ?case
    by (subst heartbeat_attempts.simps) (simp add: grows_def)
next
  case (Suc k)
  let ?P = "\<lambda>e. e = Upsert TABLE_NAME d ''node_id'' \<or> is_log e \<or> is_sleep e"
  let ?again = "upsert_outcome w (n_upsert w) = Raised \<and> a < MAX_RETRIES - 1 \<and>
      a < length RETRY_DELAYS \<and> \<not> sleep_interrupted w (n_sleep w)"
  show ?case
  proof (cases ?again)
    case True
    define w4 where "w4 = snd (time_sleep (RETRY_DELAYS ! a)
      (logger_warning ''Retrying in {delay}s...''
        (logger_warning ''Heartbeat failed (attempt {attempt + 1}/{MAX_RETRIES}): {e}''
          (snd (table_upsert c d ''node_id'' w)))))"
    from Suc.prems have lt: "a < MAX_RETRIES" and k: "MAX_RETRIES - (a + 1) = k" by simp_all
    have eq: "heartbeat_attempts a c d w = heartbeat_attempts (a + 1) c d w4"
      using True lt by (subst heartbeat_attempts.simps) (simp add: w4_def world_defs Let_def)
    have tr: "trace w4 = trace w @ [Upsert TABLE_NAME d ''node_id'',
        Log WARNING ''Heartbeat failed (attempt {attempt + 1}/{MAX_RETRIES}): {e}'',
        Log WARNING ''Retrying in {delay}s...'', Sleep (RETRY_DELAYS ! a)]"
      by (simp add: w4_def world_defs)
    show ?thesis
      unfolding eq by (rule grows_step [OF tr _ Suc.IH [OF k]]) simp
  next
    case False
    then show ?thesis
      by (subst heartbeat_attempts.simps)
        (auto simp: grows_def world_defs Let_def split: outcome.split)
  qed
qed

lemma snd_get_current_gpu_load: "snd (get_current_gpu_load w) = w\<lparr>n_probe := n_probe w + 1\<rparr>"
  by (simp add: get_current_gpu_load_def Let_def split: probe.split list.split)

lemma send_heartbeat_unfold:
  "send_heartbeat c nid g st w =
     heartbeat_attempts 0 c (heartbeat_data nid g st w) (w\<lparr>n_probe := n_probe w + 1, n_clock := n_clock w + 1\<rparr>)"
proof -
  obtain x w1 where g: "get_current_gpu_load w = (x, w1)" by (cases "get_current_gpu_load w")
  with snd_get_current_gpu_load [of w] have w1: "w1 = w\<lparr>n_probe := n_probe w + 1\<rparr>" by simp
  show ?thesis
    by (simp add: send_heartbeat_def g heartbeat_data_def Let_def w1)
qed

lemma send_heartbeat_grows:
  "grows (\<lambda>e. e = Upsert TABLE_NAME (heartbeat_data nid g st w) ''node_id'' \<or> is_log e \<or> is_sleep e) w
     (snd (send_heartbeat c nid g st w))"
  unfolding send_heartbeat_unfold
  by (rule grows_trans [OF _ heartbeat_attempts_measure [OF refl]]) (simp add: grows_refl)

lemma round_half_even_of_int: "round_half_even (of_int k) = k"
  by (simp add: round_half_even_def)

lemma py_round2_idem: "py_round2 (py_round2 x) = py_round2 x"
  by (cases x) (simp_all add: round_half_even_of_int)

lemma heartbeat_data_ok:
  "heartbeat_ok nid g (Upsert TABLE_NAME (heartbeat_data nid g (lit ''online'') w) ''node_id'')"
  by (simp add: heartbeat_data_def py_round2_idem)

lemma tick_grows: "grows (tick_event nid g) w (snd (tick c nid g w))"
proof -
  have sh: "grows (tick_event nid g) w (snd (send_heartbeat c nid g (lit ''online'') w))"
    by (rule grows_mono [OF send_heartbeat_grows])
      (use heartbeat_data_ok in \<open>auto simp: tick_event_def elim: is_log.elims is_sleep.elims\<close>)
  show ?thesis
  proof (cases "send_heartbeat c nid g (lit ''online'') w")
    case (Pair r w1)
    with sh have g1: "grows (tick_event nid g) w w1" by simp
    show ?thesis
    proof (cases r)
      case (Inl e)
      with Pair g1 show ?thesis by (simp add: tick_def)
    next
      case (Inr ok)
      have "grows (tick_event nid g) w1 (snd (tick c nid g w))"
        using Pair Inr by (simp add: tick_def grows_def world_defs tick_event_def)
      with g1 show ?thesis by (rule grows_trans)
    qed
  qed
qed

lemma while_true_grows: "grows (tick_event nid g) w (world_of (while_true n c nid g w))"
proof (induction n arbitrary: w)
  case 0
  show ?case by (simp add: grows_refl)
next
  case (Suc n)
  show ?case
  proof (cases "tick c nid g w")
    case (Pair r w1)
    with tick_grows [of nid g w c] have g1: "grows (tick_event nid g) w w1" by simp
    show ?thesis
    proof (cases r)
      case (Inl e)
      with Pair g1 show ?thesis by simp
    next
      case (Inr u)
      with Pair have "while_true (Suc n) c nid g w = while_true n c nid g w1" by simp
      with grows_trans [OF g1 Suc.IH [of w1]] show ?thesis by simp
    qed
  qed
qed

lemma while_true_add:
  "while_true k c nid g w = Running wk \<Longrightarrow> while_true (k + j) c nid g w = while_true j c nid g wk"
  by (induction k arbitrary: w) (auto split: prod.splits sum.splits)

lemma heartbeat_attempts_first:
  assumes "a < MAX_RETRIES"
  shows "\<exists>rest. trace (snd (heartbeat_attempts a c d w)) = trace w @ Upsert TABLE_NAME d ''node_id'' # rest"
proof (cases "upsert_outcome w (n_upsert w) = Raised \<and> a < MAX_RETRIES - 1 \<and>
      a < length RETRY_DELAYS \<and> \<not> sleep_interrupted w (n_sleep w)")
  case True
  define w4 where "w4 = snd (time_sleep (RETRY_DELAYS ! a)
      (logger_warning ''Retrying in {delay}s...''
        (logger_warning ''Heartbeat failed (attempt {attempt + 1}/{MAX_RETRIES}): {e}''
          (snd (table_upsert c d ''node_id'' w)))))"
  have eq: "heartbeat_attempts a c d w = heartbeat_attempts (a + 1) c d w4"
    using True assms by (subst heartbeat_attempts.simps) (simp add: w4_def world_defs Let_def)
  have tr: "trace w4 = trace w @ [Upsert TABLE_NAME d ''node_id'',
        Log WARNING ''Heartbeat failed (attempt {attempt + 1}/{MAX_RETRIES}): {e}'',
        Log WARNING ''Retrying in {delay}s...'', Sleep (RETRY_DELAYS ! a)]"
    by (simp add: w4_def world_defs)
  from heartbeat_attempts_measure [OF refl, where a = "a + 1" and d = d and w = w4 and c = c]
  obtain new where "trace (snd (heartbeat_attempts (a + 1) c d w4)) = trace w4 @ new"
    by (auto simp: grows_def)
  with eq tr show ?thesis by simp
next
  case False
  with assms show ?thesis
    by (subst heartbeat_attempts.simps) (auto simp: world_defs Let_def split: outcome.split)
qed

lemma send_heartbeat_first:
  "\<exists>rest. trace (snd (send_heartbeat c nid g st w)) =
     trace w @ Upsert TABLE_NAME (heartbeat_data nid g st w) ''node_id'' # rest"
  using heartbeat_attempts_first [of 0 c "heartbeat_data nid g st w"
      "w\<lparr>n_probe := n_probe w + 1, n_clock := n_clock w + 1\<rparr>"]
  by (simp add: send_heartbeat_unfold MAX_RETRIES_def)

lemma send_heartbeat_first_success:
  assumes "upsert_outcome w (n_upsert w) = Returned"
  shows "send_heartbeat c nid g st w =
    (Inr True, emit (Upsert TABLE_NAME (heartbeat_data nid g st w) ''node_id'')
       (w\<lparr>n_probe := n_probe w + 1, n_clock := n_clock w + 1, n_upsert := n_upsert w + 1\<rparr>))"
  using assms
  by (simp add: send_heartbeat_unfold heartbeat_attempts.simps [of 0] table_upsert_def MAX_RETRIES_def)

subsection \<open>Retry and backoff\<close>

text \<open>
  Claim C1.  When every upsert raises (and no stop signal cuts a backoff sleep short), one
  call of \<open>send_heartbeat\<close> makes exactly three upsert attempts, sleeps 1 second before
  the second and 2 seconds before the third, and then returns \<open>False\<close>: the result is a
  value, not an exception.
\<close>

theorem send_heartbeat_retry_bound:
  assumes "\<forall>k. upsert_outcome w k = Raised" and "\<forall>k. \<not> sleep_interrupted w k"
  shows "fst (send_heartbeat c nid g st w) = Inr False \<and>
    actions (trace (snd (send_heartbeat c nid g st w))) = actions (trace w) @
          [Upsert TABLE_NAME (heartbeat_data nid g st w) ''node_id'', Sleep 1,
           Upsert TABLE_NAME (heartbeat_data nid g st w) ''node_id'', Sleep 2,
           Upsert TABLE_NAME (heartbeat_data nid g st w) ''node_id''] \<and>
    n_upsert (snd (send_heartbeat c nid g st w)) = n_upsert w + 3"
  using assms
  by (simp add: send_heartbeat_unfold heartbeat_attempts.simps world_defs MAX_RETRIES_def
      RETRY_DELAYS_def actions_def Let_def)

theorem send_heartbeat_retry_bound_witness:
  "(\<forall>k. upsert_outcome (sample_world\<lparr>upsert_outcome := \<lambda>n. Raised\<rparr>) k = Raised) \<and>
   (\<forall>k. \<not> sleep_interrupted (sample_world\<lparr>upsert_outcome := \<lambda>n. Raised\<rparr>) k) \<and>
   fst (send_heartbeat (Client [] []) [110] sample_gpu (lit ''online'')
         (sample_world\<lparr>upsert_outcome := \<lambda>n. Raised\<rparr>)) = Inr False \<and>
   map is_upsert (actions (trace (snd (send_heartbeat (Client [] []) [110] sample_gpu (lit ''online'')
         (sample_world\<lparr>upsert_outcome := \<lambda>n. Raised\<rparr>))))) = [True, False, True, False, True]"
  using send_heartbeat_retry_bound [of "sample_world\<lparr>upsert_outcome := \<lambda>n. Raised\<rparr>"
      "Client [] []" "[110]" sample_gpu "lit ''online''"]
  by (simp add: sample_world_def actions_def)

text \<open>
  Claim C2.  When the first two upserts of a tick raise and the third returns,
  \<open>send_heartbeat\<close> returns \<open>True\<close>, and the third attempt is the last one of that call.
\<close>

theorem send_heartbeat_recovery:
  assumes "upsert_outcome w (n_upsert w) = Raised"
    and "upsert_outcome w (n_upsert w + 1) = Raised"
    and "upsert_outcome w (n_upsert w + 2) = Returned"
    and "\<not> sleep_interrupted w (n_sleep w)" and "\<not> sleep_interrupted w (n_sleep w + 1)"
  shows "fst (send_heartbeat c nid g st w) = Inr True \<and>
    actions (trace (snd (send_heartbeat c nid g st w))) = actions (trace w) @
          [Upsert TABLE_NAME (heartbeat_data nid g st w) ''node_id'', Sleep 1,
           Upsert TABLE_NAME (heartbeat_data nid g st w) ''node_id'', Sleep 2,
           Upsert TABLE_NAME (heartbeat_data nid g st w) ''node_id''] \<and>
    n_upsert (snd (send_heartbeat c nid g st w)) = n_upsert w + 3"
  using assms
  by (simp add: send_heartbeat_unfold heartbeat_attempts.simps world_defs MAX_RETRIES_def
      RETRY_DELAYS_def actions_def Let_def)

theorem send_heartbeat_recovery_witness:
  "fst (send_heartbeat (Client [] []) [110] sample_gpu (lit ''online'')
         (sample_world\<lparr>upsert_outcome := \<lambda>n. if n < 2 then Raised else Returned\<rparr>)) = Inr True \<and>
   n_upsert (snd (send_heartbeat (Client [] []) [110] sample_gpu (lit ''online'')
         (sample_world\<lparr>upsert_outcome := \<lambda>n. if n < 2 then Raised else Returned\<rparr>))) = 3"
  using send_heartbeat_recovery [of "sample_world\<lparr>upsert_outcome := \<lambda>n. if n < 2 then Raised else Returned\<rparr>"
      "Client [] []" "[110]" sample_gpu "lit ''online''"]
  by (simp add: sample_world_def)

subsection \<open>Load sampling and the heartbeat record\<close>

text \<open>
  Claim C7.  When the GPU probe raises or reports no device, \<open>get_current_gpu_load\<close>
  returns 0.0 (its result is a float in every case, it has no way to raise), and the
  heartbeat of that tick is still sent, with \<open>current_load\<close> equal to 0.0.
\<close>

theorem load_sample_degrades_to_zero:
  assumes "getGPUs w (n_probe w) = ProbeRaises \<or> getGPUs w (n_probe w) = ProbeGPUs []"
  shows "fst (get_current_gpu_load w) = Finite 0 \<and>
    map_of (heartbeat_data nid g st w) ''current_load'' = Some (JFloat (Finite 0)) \<and>
    (\<exists>rest. trace (snd (send_heartbeat c nid g st w)) =
       trace w @ Upsert TABLE_NAME (heartbeat_data nid g st w) ''node_id'' # rest)"
proof -
  have l: "fst (get_current_gpu_load w) = Finite 0"
    using assms by (auto simp: get_current_gpu_load_def Let_def)
  have r: "py_round2 (Finite 0) = Finite 0"
    by (simp add: round_half_even_def)
  show ?thesis using l r send_heartbeat_first [of c nid g st w] by (simp add: heartbeat_data_def)
qed

theorem load_sample_degrades_to_zero_witness:
  "getGPUs (sample_world\<lparr>getGPUs := \<lambda>n. ProbeRaises\<rparr>)
      (n_probe (sample_world\<lparr>getGPUs := \<lambda>n. ProbeRaises\<rparr>)) = ProbeRaises \<and>
   fst (get_current_gpu_load (sample_world\<lparr>getGPUs := \<lambda>n. ProbeRaises\<rparr>)) = Finite 0 \<and>
   map_of (heartbeat_data [110] sample_gpu (lit ''online'') (sample_world\<lparr>getGPUs := \<lambda>n. ProbeRaises\<rparr>))
     ''current_load'' = Some (JFloat (Finite 0))"
  using load_sample_degrades_to_zero [of "sample_world\<lparr>getGPUs := \<lambda>n. ProbeRaises\<rparr>"
      "[110]" sample_gpu "lit ''online''" "Client [] []"]
  by (simp add: sample_world_def)

subsection \<open>Node identity\<close>

lemma hexdigit_not_space: "d < 16 \<Longrightarrow> \<not> py_isspace (hexdigit d)"
  by (simp add: hexdigit_def py_isspace_def)

lemma hex_digits_not_space: "c \<in> set (hex_digits n) \<Longrightarrow> \<not> py_isspace c"
proof (induction n rule: hex_digits.induct)
  case (1 n)
  show ?case
  proof (cases "n < 16")
    case True
    with "1.prems" show ?thesis
      by (simp add: hex_digits.simps [of n] hexdigit_not_space)
  next
    case False
    with "1.prems" have "c \<in> set (hex_digits (n div 16)) \<or> c = hexdigit (n mod 16)"
      by (auto simp: hex_digits.simps [of n])
    with "1.IH" [OF False] show ?thesis
      by (auto simp: hexdigit_not_space)
  qed
qed

lemma zero_not_space: "\<not> py_isspace 48" and dash_not_space: "\<not> py_isspace 45"
  by (simp_all add: py_isspace_def)

lemma format_0x_not_space: "c \<in> set (format_0x k n) \<Longrightarrow> \<not> py_isspace c"
  by (auto simp: format_0x_def Let_def hex_digits_not_space zero_not_space)

lemma str_uuid_not_space: "c \<in> set (str_uuid n) \<Longrightarrow> \<not> py_isspace c"
  by (auto simp: str_uuid_def Let_def slice_def dash_not_space
      dest!: in_set_takeD in_set_dropD format_0x_not_space)

lemma str_uuid_not_empty: "str_uuid n \<noteq> []"
  by (simp add: str_uuid_def Let_def)

lemma dropWhile_none: "\<forall>c\<in>set s. \<not> P c \<Longrightarrow> dropWhile P s = s"
  by (cases s) simp_all

lemma strip_no_space: "\<forall>c\<in>set s. \<not> py_isspace c \<Longrightarrow> strip s = s"
  by (simp add: strip_def dropWhile_none)


lemma strip_str_uuid: "strip (str_uuid n) = str_uuid n"
  by (rule strip_no_space) (simp add: str_uuid_not_space)

lemma strip_idem: "strip (strip s) = strip s"
proof (cases "strip s = []")
  case True
  have "strip [] = []" by (simp add: strip_def)
  with True show ?thesis by (simp only:)
next
  case False
  define u where "u = dropWhile py_isspace s"
  define r where "r = dropWhile py_isspace (rev u)"
  have t: "strip s = rev r" by (simp add: strip_def u_def r_def)
  with False have rne: "r \<noteq> []" by simp
  then have hr: "\<not> py_isspace (hd r)" unfolding r_def by (rule hd_dropWhile)
  from rne have une: "u \<noteq> []" by (auto simp: r_def)
  then have hu: "\<not> py_isspace (hd u)" unfolding u_def by (rule hd_dropWhile)
  have "rev u = takeWhile py_isspace (rev u) @ r" by (simp add: r_def)
  then have "u = rev r @ rev (takeWhile py_isspace (rev u))"
    by (metis rev_append rev_rev_ident)
  with rne have "hd (rev r) = hd u" by (metis hd_append2 rev_is_Nil_conv)
  with hu have 1: "dropWhile py_isspace (rev r) = rev r"
    using rne by (cases "rev r") auto
  from hr rne have 2: "dropWhile py_isspace r = r" by (cases r) auto
  show ?thesis
    unfolding t by (simp add: strip_def 1 2)
qed

lemma generate_node_id_persists:
  "\<not> write_raises w \<Longrightarrow> id_file (snd (generate_node_id w)) = Some (fst (generate_node_id w))"
  by (simp add: generate_node_id_def Let_def world_defs)

lemma generate_node_id_is_uuid: "\<exists>n. fst (generate_node_id w) = str_uuid n"
  by (auto simp: generate_node_id_def Let_def world_defs)

lemma get_or_create_node_id_cases:
  "(\<exists>s. id_file w = Some s \<and> \<not> read_raises w \<and> strip s \<noteq> [] \<and>
        get_or_create_node_id w = (strip s, logger_info ''Loaded existing node ID: {node_id[:8]}...'' w)) \<or>
   get_or_create_node_id w = generate_node_id w \<or>
   get_or_create_node_id w = generate_node_id (logger_warning ''Could not read {NODE_ID_FILE}: {e}'' w)"
  by (cases "id_file w") (simp_all add: get_or_create_node_id_def Let_def)

text \<open>
  Claim C3.  Take a run of \<open>get_or_create_node_id\<close> in which writing the file does not
  fail, so that a newly generated identifier is persisted.  Every later call that finds
  the file as that run left it and can read it, in the same process or in a fresh one,
  returns the identifier of the first run, and leaves the file as it is, so the same
  holds for the call after it.  In particular two calls in sequence agree.
\<close>

theorem node_id_round_trip:
  assumes "\<not> write_raises w"
    and "id_file w2 = id_file (snd (get_or_create_node_id w))"
    and "\<not> read_raises w2"
  shows "fst (get_or_create_node_id w2) = fst (get_or_create_node_id w) \<and>
    id_file (snd (get_or_create_node_id w2)) = id_file w2 \<and>
    actions (trace (snd (get_or_create_node_id w2))) = actions (trace w2) \<and>
    (id_file w = None \<longrightarrow> id_file w2 = Some (fst (get_or_create_node_id w)))"
proof -
  define nid where "nid = fst (get_or_create_node_id w)"
  have "\<exists>s. id_file w2 = Some s \<and> strip s = nid \<and> nid \<noteq> []"
  proof -
    consider (load) s where "id_file w = Some s" "strip s \<noteq> []"
        "get_or_create_node_id w = (strip s, logger_info ''Loaded existing node ID: {node_id[:8]}...'' w)"
      | (gen) w0 where "get_or_create_node_id w = generate_node_id w0" "write_raises w0 = write_raises w"
      using get_or_create_node_id_cases [of w] by (auto simp: world_defs)
    then show ?thesis
    proof cases
      case load
      with assms(2) show ?thesis
        by (simp add: nid_def world_defs strip_idem)
    next
      case gen
      with assms(1) have wr: "\<not> write_raises w0" by simp
      from generate_node_id_is_uuid [of w0] obtain n where n: "nid = str_uuid n"
        by (auto simp: nid_def gen)
      from generate_node_id_persists [OF wr] have "id_file w2 = Some nid"
        by (simp add: assms(2) gen nid_def)
      with n show ?thesis by (simp add: strip_str_uuid str_uuid_not_empty)
    qed
  qed
  then obtain s where t: "id_file w2 = Some s" "strip s = nid" "nid \<noteq> []" by blast
  with assms(3) have r: "get_or_create_node_id w2 = (nid, logger_info ''Loaded existing node ID: {node_id[:8]}...'' w2)"
    by (simp add: get_or_create_node_id_def)
  have "id_file w = None \<longrightarrow> id_file w2 = Some nid"
    using assms(1,2) generate_node_id_persists [of w]
    by (auto simp: get_or_create_node_id_def nid_def)
  with r show ?thesis
    by (simp add: nid_def [symmetric] world_defs actions_def)
qed

theorem node_id_round_trip_witness:
  "\<not> write_raises sample_world \<and>
   \<not> read_raises (snd (get_or_create_node_id sample_world)) \<and>
   id_file sample_world = None \<and>
   fst (get_or_create_node_id (snd (get_or_create_node_id sample_world))) =
     fst (get_or_create_node_id sample_world) \<and>
   id_file (snd (get_or_create_node_id sample_world)) = Some (fst (get_or_create_node_id sample_world))"
  using node_id_round_trip [of sample_world "snd (get_or_create_node_id sample_world)"]
  by (simp add: sample_world_def get_or_create_node_id_def generate_node_id_def Let_def world_defs)



subsection \<open>Startup\<close>

lemma detect_gpu_frame:
  "trace (snd (detect_gpu w)) = trace w \<or>
   trace (snd (detect_gpu w)) = trace w @ [Log ERROR ''GPU detection failed: {e}'']"
  by (simp add: detect_gpu_def Let_def world_defs split: probe.split list.split option.split)

lemma detect_gpu_emit: "fst (detect_gpu (emit e w)) = fst (detect_gpu w)"
  by (simp add: detect_gpu_def Let_def world_defs split: probe.split list.split option.split)

lemma detect_gpu_same:
  "id_file (snd (detect_gpu w)) = id_file w \<and> n_upsert (snd (detect_gpu w)) = n_upsert w \<and>
   n_update (snd (detect_gpu w)) = n_update w \<and> env_url (snd (detect_gpu w)) = env_url w \<and>
   env_key (snd (detect_gpu w)) = env_key w \<and>
   create_client_raises (snd (detect_gpu w)) = create_client_raises w"
  by (simp add: detect_gpu_def Let_def world_defs split: probe.split list.split option.split)

text \<open>
  Claim C4.  When GPU detection returns \<open>None\<close>, \<open>main\<close> ends with exit status 1
  whatever the fuel, having logged its diagnostic and done nothing else: no registry
  call, no sleep, no write of the identity file, whose contents are as before.
\<close>

theorem main_no_gpu_exits:
  assumes "fst (detect_gpu w) = None"
  shows "\<exists>w'. main fuel w = Some (Exit 1, w') \<and> actions (trace w') = actions (trace w) \<and>
    id_file w' = id_file w \<and> n_upsert w' = n_upsert w \<and> n_update w' = n_update w \<and>
    last (trace w') = Log ERROR ''  3. nvidia-smi command works correctly''"
proof -
  let ?w0 = "logger_info ''Detecting GPU...''
               (logger_info ''Initializing NUSA Compute Provider Client...'' w)"
  obtain r w1 where d: "detect_gpu ?w0 = (r, w1)" by (cases "detect_gpu ?w0")
  from assms have "fst (detect_gpu ?w0) = None"
    by (simp add: logger_info_def detect_gpu_emit)
  with d have r: "r = None" by simp
  from detect_gpu_frame [of ?w0] d have tr: "actions (trace w1) = actions (trace w)"
    by (auto simp: actions_def world_defs)
  from detect_gpu_same [of ?w0] d
  have same: "id_file w1 = id_file w" "n_upsert w1 = n_upsert w" "n_update w1 = n_update w"
    by (simp_all add: world_defs)
  have m: "main fuel w = Some (Exit 1, no_gpu_diagnostic w1)"
    by (simp add: main_def d r)
  show ?thesis
    unfolding m using tr same by (simp add: no_gpu_diagnostic_def world_defs actions_def)
qed

theorem main_no_gpu_exits_witness:
  "fst (detect_gpu (sample_world\<lparr>getGPUs := \<lambda>n. ProbeGPUs []\<rparr>)) = None \<and>
   (\<exists>w'. main 3 (sample_world\<lparr>getGPUs := \<lambda>n. ProbeGPUs []\<rparr>) = Some (Exit 1, w') \<and>
      actions (trace w') = [] \<and> id_file w' = None)"
proof -
  let ?w = "sample_world\<lparr>getGPUs := \<lambda>n. ProbeGPUs []\<rparr>"
  have h: "fst (detect_gpu ?w) = None"
    by (simp add: detect_gpu_def sample_world_def Let_def)
  have a: "actions (trace ?w) = []" "id_file ?w = None"
    by (simp_all add: sample_world_def actions_def)
  from main_no_gpu_exits [OF h, of 3] a h show ?thesis by auto
qed

lemma generate_node_id_frame:
  "env_url (snd (generate_node_id w)) = env_url w \<and> env_key (snd (generate_node_id w)) = env_key w \<and>
   create_client_raises (snd (generate_node_id w)) = create_client_raises w \<and>
   n_upsert (snd (generate_node_id w)) = n_upsert w \<and> n_update (snd (generate_node_id w)) = n_update w \<and>
   grows (\<lambda>e. is_log e \<or> is_file_write e) w (snd (generate_node_id w))"
  by (simp add: generate_node_id_def Let_def world_defs grows_def)

lemma get_or_create_node_id_frame:
  "env_url (snd (get_or_create_node_id w)) = env_url w \<and>
   env_key (snd (get_or_create_node_id w)) = env_key w \<and>
   create_client_raises (snd (get_or_create_node_id w)) = create_client_raises w \<and>
   n_upsert (snd (get_or_create_node_id w)) = n_upsert w \<and>
   n_update (snd (get_or_create_node_id w)) = n_update w \<and>
   grows (\<lambda>e. is_log e \<or> is_file_write e) w (snd (get_or_create_node_id w))"
proof -
  let ?lw = "logger_warning ''Could not read {NODE_ID_FILE}: {e}'' w"
  have lw: "grows (\<lambda>e. is_log e \<or> is_file_write e) w ?lw"
    by (simp add: grows_def world_defs)
  from get_or_create_node_id_cases [of w] show ?thesis
  proof (elim disjE exE conjE)
    fix s assume "get_or_create_node_id w = (strip s, logger_info ''Loaded existing node ID: {node_id[:8]}...'' w)"
    then show ?thesis by (simp add: world_defs grows_def)
  next
    assume "get_or_create_node_id w = generate_node_id w"
    with generate_node_id_frame [of w] show ?thesis by simp
  next
    assume "get_or_create_node_id w = generate_node_id ?lw"
    with generate_node_id_frame [of ?lw] grows_trans [OF lw] show ?thesis
      by (simp add: world_defs)
  qed
qed

lemma init_supabase_frame:
  "grows is_log w (snd (init_supabase w)) \<and>
   n_upsert (snd (init_supabase w)) = n_upsert w \<and> n_update (snd (init_supabase w)) = n_update w"
  by (simp add: init_supabase_def Let_def world_defs grows_def split: option.split)

lemma init_supabase_fails:
  assumes "env_url w = None \<or> env_url w = Some [] \<or> env_key w = None \<or> env_key w = Some [] \<or>
      env_url w = Some (lit ''your_supabase_url_here'') \<or>
      env_key w = Some (lit ''your_supabase_anon_key_here'') \<or> create_client_raises w"
  shows "fst (init_supabase w) = None"
  using assms
  by (cases "env_url w"; cases "env_key w") (auto simp: init_supabase_def Let_def)

text \<open>
  Claim C9.  When \<open>SUPABASE_URL\<close> or \<open>SUPABASE_KEY\<close> is missing or empty, or one of them
  is the placeholder of the template, or \<open>create_client\<close> raises, \<open>main\<close> ends with exit
  status 1 whatever the fuel: its last action is an error log line, the loop is never
  entered (no sleep), and no registry call is made.
\<close>

theorem main_bad_credentials_exits:
  assumes "env_url w = None \<or> env_url w = Some [] \<or> env_key w = None \<or> env_key w = Some [] \<or>
      env_url w = Some (lit ''your_supabase_url_here'') \<or>
      env_key w = Some (lit ''your_supabase_anon_key_here'') \<or> create_client_raises w"
  shows "\<exists>w'. main fuel w = Some (Exit 1, w') \<and>
    filter is_registry_call (trace w') = filter is_registry_call (trace w) \<and>
    filter is_sleep (trace w') = filter is_sleep (trace w) \<and>
    n_upsert w' = n_upsert w \<and> n_update w' = n_update w \<and>
    (\<exists>m. last (trace w') = Log ERROR m)"
proof -
  let ?w0 = "logger_info ''Detecting GPU...''
               (logger_info ''Initializing NUSA Compute Provider Client...'' w)"
  obtain r w1 where d: "detect_gpu ?w0 = (r, w1)" by (cases "detect_gpu ?w0")
  from detect_gpu_frame [of ?w0] d
  have tr1: "grows is_log w w1"
    by (auto simp: grows_def world_defs)
  from detect_gpu_same [of ?w0] d
  have same1: "n_upsert w1 = n_upsert w" "n_update w1 = n_update w" "env_url w1 = env_url w"
      "env_key w1 = env_key w" "create_client_raises w1 = create_client_raises w"
    by (simp_all add: world_defs)
  show ?thesis
  proof (cases r)
    case None
    have "filter is_registry_call (trace w1) = filter is_registry_call (trace w)"
      "filter is_sleep (trace w1) = filter is_sleep (trace w)"
      by (rule grows_filter [OF tr1]; auto simp: is_registry_call_def elim: is_log.elims)+
    moreover have m: "main fuel w = Some (Exit 1, no_gpu_diagnostic w1)"
      by (simp add: main_def d None)
    ultimately show ?thesis
      unfolding m using same1 by (simp add: no_gpu_diagnostic_def world_defs is_registry_call_def)
  next
    case (Some g)
    let ?w1' = "logger_info ''Setting up node identity...'' (logger_info ''GPU detected: {gpu_info}'' w1)"
    obtain nid w2 where i: "get_or_create_node_id ?w1' = (nid, w2)"
      by (cases "get_or_create_node_id ?w1'")
    let ?w2' = "logger_info ''Connecting to Supabase...'' w2"
    from get_or_create_node_id_frame [of ?w1'] i same1
    have same2: "n_upsert ?w2' = n_upsert w" "n_update ?w2' = n_update w" "env_url ?w2' = env_url w"
      "env_key ?w2' = env_key w" "create_client_raises ?w2' = create_client_raises w"
      and tr2: "grows (\<lambda>e. is_log e \<or> is_file_write e) ?w1' w2"
      by (simp_all add: world_defs)
    have "grows (\<lambda>e. is_log e \<or> is_file_write e) w1 ?w1'" "grows (\<lambda>e. is_log e \<or> is_file_write e) w2 ?w2'"
      by (simp_all add: grows_def world_defs)
    with tr2 grows_mono [OF tr1, of "\<lambda>e. is_log e \<or> is_file_write e"]
    have tr3: "grows (\<lambda>e. is_log e \<or> is_file_write e) w ?w2'"
      by (blast intro: grows_trans)
    obtain cl w3 where s: "init_supabase ?w2' = (cl, w3)" by (cases "init_supabase ?w2'")
    from assms same2 init_supabase_fails [of ?w2'] s
    have cl: "cl = None" by simp
    from init_supabase_frame [of ?w2'] s same2
    have tr4: "grows is_log ?w2' w3" and same3: "n_upsert w3 = n_upsert w" "n_update w3 = n_update w"
      by simp_all
    have "grows (\<lambda>e. is_log e \<or> is_file_write e) ?w2' w3"
      by (rule grows_mono [OF tr4]) simp
    with tr3 have tr5: "grows (\<lambda>e. is_log e \<or> is_file_write e) w w3" by (rule grows_trans)
    have "filter is_registry_call (trace w3) = filter is_registry_call (trace w)"
      "filter is_sleep (trace w3) = filter is_sleep (trace w)"
      by (rule grows_filter [OF tr5]; auto simp: is_registry_call_def elim: is_log.elims is_file_write.elims)+
    moreover have m: "main fuel w =
        Some (Exit 1, logger_error ''Failed to initialize Supabase client. Exiting.'' w3)"
      by (simp add: main_def d Some i s cl)
    ultimately show ?thesis
      unfolding m using same3 by (simp add: world_defs is_registry_call_def)
  qed
qed

theorem main_bad_credentials_exits_witness:
  "env_key (sample_world\<lparr>env_key := None\<rparr>) = None \<and>
   (\<exists>w'. main 0 (sample_world\<lparr>env_key := None\<rparr>) = Some (Exit 1, w') \<and>
      filter is_registry_call (trace w') = [] \<and> n_upsert w' = 0)"
proof -
  let ?w = "sample_world\<lparr>env_key := None\<rparr>"
  have h: "env_key ?w = None" by simp
  have a: "trace ?w = []" "n_upsert ?w = 0" by (simp_all add: sample_world_def)
  from main_bad_credentials_exits [of ?w 0] h a show ?thesis by auto
qed

subsection \<open>Shutdown\<close>

lemma update_status_offline_result:
  "update_status_offline c nid w =
     (case update_outcome w (n_update w) of
        Returned \<Rightarrow> (Inr (), logger_info ''Status updated to 'offline' in database.''
                      (emit (offline_mark nid w) (w\<lparr>n_clock := n_clock w + 1, n_update := n_update w + 1\<rparr>)))
      | Raised \<Rightarrow> (Inr (), logger_error ''Failed to update offline status: {e}''
                      (emit (offline_mark nid w) (w\<lparr>n_clock := n_clock w + 1, n_update := n_update w + 1\<rparr>)))
      | Interrupted \<Rightarrow> (Inl KeyboardInterrupt,
                      emit (offline_mark nid w) (w\<lparr>n_clock := n_clock w + 1, n_update := n_update w + 1\<rparr>)))"
  by (simp add: update_status_offline_def offline_mark_def Let_def table_update_def split: outcome.split)

lemma update_status_offline_actions:
  "actions (trace (snd (update_status_offline c nid w))) = actions (trace w) @ [offline_mark nid w]"
  by (simp add: update_status_offline_result actions_def world_defs offline_mark_def split: outcome.split)

lemma banner_grows: "grows is_log w (banner w)"
  by (simp add: banner_def grows_def world_defs)

lemma shutdown:
  assumes "while_true n c nid g (banner w) = Raising KeyboardInterrupt w2"
    and "update_outcome w2 (n_update w2) \<noteq> Interrupted"
  shows "\<exists>w'. run_heartbeat_loop n c nid g w = Some (Exit 0, w') \<and>
    (\<exists>l m. trace w' = trace w2 @ [Log INFO [CHR 0x0A], Log INFO ''Shutdown requested (Ctrl+C)...'',
        offline_mark nid w2, Log l m, Log INFO ''NUSA Compute Provider Client stopped.'']) \<and>
    (update_outcome w2 (n_update w2) = Raised \<longrightarrow>
       Log ERROR ''Failed to update offline status: {e}'' \<in> set (trace w'))"
proof -
  let ?w3 = "logger_info ''Shutdown requested (Ctrl+C)...'' (logger_info [CHR 0x0A] w2)"
  have o: "update_outcome ?w3 (n_update ?w3) = update_outcome w2 (n_update w2)"
    and m: "offline_mark nid ?w3 = offline_mark nid w2"
    and t: "trace ?w3 = trace w2 @ [Log INFO [CHR 0x0A], Log INFO ''Shutdown requested (Ctrl+C)...'']"
    by (simp_all add: world_defs offline_mark_def)
  show ?thesis
  proof (cases "update_outcome w2 (n_update w2)")
    case Returned
    then have u: "update_status_offline c nid ?w3 = (Inr (), logger_info ''Status updated to 'offline' in database.''
        (emit (offline_mark nid w2) (?w3\<lparr>n_clock := n_clock ?w3 + 1, n_update := n_update ?w3 + 1\<rparr>)))"
      by (simp only: update_status_offline_result o m outcome.case)
    have r: "run_heartbeat_loop n c nid g w = Some (Exit 0, logger_info ''NUSA Compute Provider Client stopped.''
       (logger_info ''Status updated to 'offline' in database.''
        (emit (offline_mark nid w2) (?w3\<lparr>n_clock := n_clock ?w3 + 1, n_update := n_update ?w3 + 1\<rparr>))))"
      by (simp add: run_heartbeat_loop_def assms(1) u)
    show ?thesis
      unfolding r using Returned by (simp add: world_defs)
  next
    case Raised
    then have u: "update_status_offline c nid ?w3 = (Inr (), logger_error ''Failed to update offline status: {e}''
        (emit (offline_mark nid w2) (?w3\<lparr>n_clock := n_clock ?w3 + 1, n_update := n_update ?w3 + 1\<rparr>)))"
      by (simp only: update_status_offline_result o m outcome.case)
    have r: "run_heartbeat_loop n c nid g w = Some (Exit 0, logger_info ''NUSA Compute Provider Client stopped.''
       (logger_error ''Failed to update offline status: {e}''
        (emit (offline_mark nid w2) (?w3\<lparr>n_clock := n_clock ?w3 + 1, n_update := n_update ?w3 + 1\<rparr>))))"
      by (simp add: run_heartbeat_loop_def assms(1) u)
    show ?thesis
      unfolding r by (simp add: world_defs)
  next
    case Interrupted
    with assms(2) show ?thesis by simp
  qed
qed

text \<open>
  Claim C5.  Let the loop run \<open>k\<close> full iterations, let the next heartbeat return, and let
  the stop signal arrive during the sleep between ticks that follows (with no second
  signal during the offline mark).  Then, given fuel for these iterations,
  \<open>run_heartbeat_loop\<close> ends with exit status 0; after that heartbeat it performs the
  interrupted sleep and one update request and nothing else; this request is the only
  update of the whole run and the last registry call of the trace.
\<close>

theorem stop_signal_marks_offline_once:
  assumes run: "while_true k c nid g (banner w) = Running wk"
    and hb: "send_heartbeat c nid g (lit ''online'') wk = (Inr ok, w1)"
    and stop: "sleep_interrupted w1 (n_sleep w1)"
    and upd: "update_outcome w1 (n_update w1) \<noteq> Interrupted"
  shows "\<exists>w'. run_heartbeat_loop (Suc k + m) c nid g w = Some (Exit 0, w') \<and>
     actions (trace w') = actions (trace w1) @ [Sleep HEARTBEAT_INTERVAL, offline_mark nid w1] \<and>
     filter is_update (trace w') = filter is_update (trace w) @ [offline_mark nid w1] \<and>
     last (filter is_registry_call (trace w')) = offline_mark nid w1"
proof -
  let ?w1' = "if ok then logger_info ''Heartbeat sent at {current_time} - Status: Online'' w1
             else logger_warning ''Heartbeat failed - will retry next interval'' w1"
  define w2 where "w2 = snd (time_sleep HEARTBEAT_INTERVAL ?w1')"
  have tk: "tick c nid g wk = (Inl KeyboardInterrupt, w2)"
    using stop by (simp add: tick_def hb w2_def time_sleep_def world_defs)
  have "while_true (Suc k + m) c nid g (banner w) = while_true (Suc m) c nid g wk"
    using while_true_add [OF run, of "Suc m"] by simp
  then have wt: "while_true (Suc k + m) c nid g (banner w) = Raising KeyboardInterrupt w2"
    by (simp add: tk)
  have tr2: "\<exists>l s. trace w2 = trace w1 @ [Log l s, Sleep HEARTBEAT_INTERVAL]"
    by (simp add: w2_def time_sleep_def world_defs)
  have same: "update_outcome w2 (n_update w2) = update_outcome w1 (n_update w1)"
    "offline_mark nid w2 = offline_mark nid w1"
    by (simp_all add: w2_def time_sleep_def world_defs offline_mark_def)
  from shutdown [OF wt] upd same obtain w' l s where
    r: "run_heartbeat_loop (Suc k + m) c nid g w = Some (Exit 0, w')"
    and tr: "trace w' = trace w2 @ [Log INFO [CHR 0x0A], Log INFO ''Shutdown requested (Ctrl+C)...'',
        offline_mark nid w1, Log l s, Log INFO ''NUSA Compute Provider Client stopped.'']"
    by auto
  have lg: "\<And>e. is_log e \<Longrightarrow> tick_event nid g e"
    by (auto simp: tick_event_def elim: is_log.elims)
  have g0: "grows (tick_event nid g) w (banner w)"
    by (rule grows_mono [OF banner_grows lg])
  have gk: "grows (tick_event nid g) (banner w) wk"
    using while_true_grows [of nid g "banner w" k c] by (simp add: run)
  note g1 = grows_trans [OF g0 gk]
  have "grows (\<lambda>e. e = Upsert TABLE_NAME (heartbeat_data nid g (lit ''online'') wk) ''node_id'' \<or>
      is_log e \<or> is_sleep e) wk w1"
    using send_heartbeat_grows [of nid g "lit ''online''" wk c] by (simp add: hb)
  then have g2: "grows (tick_event nid g) wk w1"
    by (rule grows_mono)
      (use heartbeat_data_ok in \<open>auto simp: tick_event_def elim: is_log.elims is_sleep.elims\<close>)
  have upd_old: "filter is_update (trace w1) = filter is_update (trace w)"
    by (rule grows_filter [OF grows_trans [OF g1 g2]]) (simp add: tick_event_def)
  have a: "actions (trace w') = actions (trace w1) @ [Sleep HEARTBEAT_INTERVAL, offline_mark nid w1]"
    using tr tr2 by (auto simp: actions_def offline_mark_def)
  have b: "filter is_update (trace w') = filter is_update (trace w) @ [offline_mark nid w1]"
    using tr tr2 upd_old by (auto simp: offline_mark_def)
  have c: "last (filter is_registry_call (trace w')) = offline_mark nid w1"
    using tr tr2 by (auto simp: offline_mark_def is_registry_call_def)
  from r a b c show ?thesis by blast
qed

theorem stop_signal_marks_offline_once_witness:
  "\<exists>w'. run_heartbeat_loop 1 (Client [] []) [110] sample_gpu
           (sample_world\<lparr>sleep_interrupted := \<lambda>n. True\<rparr>) = Some (Exit 0, w') \<and>
     length (filter is_update (trace w')) = 1 \<and>
     is_update (last (filter is_registry_call (trace w')))"
proof -
  let ?w = "sample_world\<lparr>sleep_interrupted := \<lambda>n. True\<rparr>"
  let ?c = "Client [] []"
  define w1 where "w1 = emit (Upsert TABLE_NAME (heartbeat_data [110] sample_gpu (lit ''online'') (banner ?w)) ''node_id'')
       ((banner ?w)\<lparr>n_probe := n_probe (banner ?w) + 1, n_clock := n_clock (banner ?w) + 1,
          n_upsert := n_upsert (banner ?w) + 1\<rparr>)"
  have run: "while_true 0 ?c [110] sample_gpu (banner ?w) = Running (banner ?w)" by simp
  have "upsert_outcome (banner ?w) (n_upsert (banner ?w)) = Returned"
    by (simp add: banner_def world_defs sample_world_def)
  then have hb: "send_heartbeat ?c [110] sample_gpu (lit ''online'') (banner ?w) = (Inr True, w1)"
    unfolding w1_def by (rule send_heartbeat_first_success)
  have stop: "sleep_interrupted w1 (n_sleep w1)"
    by (simp add: w1_def banner_def world_defs sample_world_def)
  have upd: "update_outcome w1 (n_update w1) \<noteq> Interrupted"
    by (simp add: w1_def banner_def world_defs sample_world_def)
  have old: "filter is_update (trace ?w) = []" by (simp add: sample_world_def)
  from stop_signal_marks_offline_once [OF run hb stop upd, of 0] old show ?thesis
    by (auto simp: offline_mark_def)
qed

text \<open>
  Claim C8.  \<open>update_status_offline\<close> sends one update request, with the two fields
  \<open>status\<close> and \<open>last_seen\<close> and the filter \<open>node_id = node_id\<close>.  In the registry such a
  request keeps the number of rows, every other column of every row, and every row of
  another node.  When the loop is left by the stop signal and the update raises, the
  failure is logged at error level and \<open>run_heartbeat_loop\<close> still ends with exit status 0.
\<close>

theorem offline_mark_frame:
  assumes "while_true fuel c nid g (banner w) = Raising KeyboardInterrupt w1"
    and "update_outcome w1 (n_update w1) = Raised"
  shows "actions (trace (snd (update_status_offline c nid w0))) = actions (trace w0) @
      [Update TABLE_NAME [(''status'', JStr (lit ''offline'')), (''last_seen'', JUtcIso (utc_now w0 (n_clock w0)))]
         ''node_id'' nid] \<and>
    length (registry_update [(''status'', s), (''last_seen'', t)] ''node_id'' nid table) = length table \<and>
    (\<forall>i<length table.
       (\<forall>col. col \<noteq> ''status'' \<and> col \<noteq> ''last_seen'' \<longrightarrow>
          (registry_update [(''status'', s), (''last_seen'', t)] ''node_id'' nid table ! i) col = (table ! i) col) \<and>
       ((table ! i) ''node_id'' \<noteq> Some (JStr nid) \<longrightarrow>
          registry_update [(''status'', s), (''last_seen'', t)] ''node_id'' nid table ! i = table ! i)) \<and>
    (\<exists>w'. run_heartbeat_loop fuel c nid g w = Some (Exit 0, w') \<and>
       Log ERROR ''Failed to update offline status: {e}'' \<in> set (trace w'))"
proof -
  have 1: "actions (trace (snd (update_status_offline c nid w0))) = actions (trace w0) @
      [Update TABLE_NAME [(''status'', JStr (lit ''offline'')), (''last_seen'', JUtcIso (utc_now w0 (n_clock w0)))]
         ''node_id'' nid]"
    using update_status_offline_actions [of c nid w0] by (simp add: offline_mark_def)
  have 2: "length (registry_update [(''status'', s), (''last_seen'', t)] ''node_id'' nid table) = length table"
    by (simp add: registry_update_def)
  have 3: "\<forall>i<length table.
       (\<forall>col. col \<noteq> ''status'' \<and> col \<noteq> ''last_seen'' \<longrightarrow>
          (registry_update [(''status'', s), (''last_seen'', t)] ''node_id'' nid table ! i) col = (table ! i) col) \<and>
       ((table ! i) ''node_id'' \<noteq> Some (JStr nid) \<longrightarrow>
          registry_update [(''status'', s), (''last_seen'', t)] ''node_id'' nid table ! i = table ! i)"
    by (simp add: registry_update_def map_add_def)
  from shutdown [OF assms(1)] assms(2)
  have 4: "\<exists>w'. run_heartbeat_loop fuel c nid g w = Some (Exit 0, w') \<and>
       Log ERROR ''Failed to update offline status: {e}'' \<in> set (trace w')"
    by auto
  from 1 2 3 4 show ?thesis by blast
qed

theorem offline_mark_frame_witness:
  "\<exists>w'. run_heartbeat_loop 1 (Client [] []) [110] sample_gpu
           (sample_world\<lparr>sleep_interrupted := \<lambda>n. True, update_outcome := \<lambda>n. Raised\<rparr>) = Some (Exit 0, w') \<and>
     Log ERROR ''Failed to update offline status: {e}'' \<in> set (trace w')"
proof -
  let ?w = "sample_world\<lparr>sleep_interrupted := \<lambda>n. True, update_outcome := \<lambda>n. Raised\<rparr>"
  let ?c = "Client [] []"
  define w1 where "w1 = emit (Upsert TABLE_NAME (heartbeat_data [110] sample_gpu (lit ''online'') (banner ?w)) ''node_id'')
       ((banner ?w)\<lparr>n_probe := n_probe (banner ?w) + 1, n_clock := n_clock (banner ?w) + 1,
          n_upsert := n_upsert (banner ?w) + 1\<rparr>)"
  define w2 where "w2 = snd (time_sleep HEARTBEAT_INTERVAL
      (logger_info ''Heartbeat sent at {current_time} - Status: Online'' w1))"
  have "upsert_outcome (banner ?w) (n_upsert (banner ?w)) = Returned"
    by (simp add: banner_def world_defs sample_world_def)
  then have hb: "send_heartbeat ?c [110] sample_gpu (lit ''online'') (banner ?w) = (Inr True, w1)"
    unfolding w1_def by (rule send_heartbeat_first_success)
  have stop: "sleep_interrupted w1 (n_sleep w1)"
    by (simp add: w1_def banner_def world_defs sample_world_def)
  have tk: "tick ?c [110] sample_gpu (banner ?w) = (Inl KeyboardInterrupt, w2)"
    using stop by (simp add: tick_def hb w2_def time_sleep_def world_defs)
  have run: "while_true 1 ?c [110] sample_gpu (banner ?w) = Raising KeyboardInterrupt w2"
    by (simp add: tk)
  have upd: "update_outcome w2 (n_update w2) = Raised"
    by (simp add: w2_def w1_def time_sleep_def banner_def world_defs sample_world_def)
  from offline_mark_frame [OF run upd] show ?thesis by blast
qed

subsection \<open>The heartbeat record across a run\<close>

lemma not_upsert_ok: "\<not> is_upsert e \<Longrightarrow> heartbeat_ok nid g e"
  by (cases e) simp_all





end
